theory Spec2Isabelle
  imports Complex_Main "HOL-Library.Log_Nat"
begin

section \<open>Python values\<close>

text \<open>
  A Python \<open>str\<close> is a sequence of Unicode code points, so it is modelled as a list of
  code points: slicing and \<open>len\<close> count code points, not bytes. \<open>asc\<close> turns an ASCII
  literal into such a string.
\<close>

type_synonym pystr = "nat list"

definition asc :: "string \<Rightarrow> pystr" where
  "asc s = map of_char s"

text \<open>The value of \<open>json.loads\<close> or \<open>response.json()\<close>: Python's \<open>None\<close>, \<open>bool\<close>,
  \<open>int\<close>, \<open>float\<close>, \<open>str\<close>, \<open>list\<close> and \<open>dict\<close> (string keys in order, each key once).\<close>

datatype json =
    JNull
  | JBool bool
  | JInt int
  | JFloat rat
  | JStr pystr
  | JList "json list"
  | JDict "(pystr \<times> json) list"

text \<open>
  Exceptions with the text that \<open>str(e)\<close> returns. \<open>Timeout\<close> stands for
  \<open>requests.exceptions.Timeout\<close> and its subclasses, \<open>ConnectionError\<close> for
  \<open>requests.exceptions.ConnectionError\<close>, \<open>OtherError\<close> for every other \<open>Exception\<close>.
  The texts of the interpreter's own exceptions are those of CPython 3.11.
\<close>

datatype exn = Timeout pystr | ConnectionError pystr | OtherError pystr

fun str_exn :: "exn \<Rightarrow> pystr" where
  "str_exn (Timeout m) = m"
| "str_exn (ConnectionError m) = m"
| "str_exn (OtherError m) = m"

fun type_name :: "json \<Rightarrow> pystr" where
  "type_name JNull = asc ''NoneType''"
| "type_name (JBool b) = asc ''bool''"
| "type_name (JInt i) = asc ''int''"
| "type_name (JFloat r) = asc ''float''"
| "type_name (JStr s) = asc ''str''"
| "type_name (JList xs) = asc ''list''"
| "type_name (JDict kvs) = asc ''dict''"

definition squote :: "pystr \<Rightarrow> pystr" where
  "squote s = [39] @ s @ [39]"

definition dquote :: "pystr \<Rightarrow> pystr" where
  "dquote s = [34] @ s @ [34]"

definition AttributeError_get :: "json \<Rightarrow> exn" where
  "AttributeError_get v =
     OtherError (squote (type_name v) @ asc '' object has no attribute '' @ squote (asc ''get''))"

definition TypeError_subscript :: "json \<Rightarrow> exn" where
  "TypeError_subscript v = OtherError (squote (type_name v) @ asc '' object is not subscriptable'')"

definition TypeError_iter :: "json \<Rightarrow> exn" where
  "TypeError_iter v = OtherError (squote (type_name v) @ asc '' object is not iterable'')"

definition TypeError_len :: "json \<Rightarrow> exn" where
  "TypeError_len v = OtherError (asc ''object of type '' @ squote (type_name v) @ asc '' has no len()'')"

definition TypeError_concat :: "json \<Rightarrow> exn" where
  "TypeError_concat v =
     OtherError (asc ''can only concatenate str (not '' @ dquote (type_name v) @ asc '') to str'')"

definition TypeError_slice :: exn where
  "TypeError_slice = OtherError (asc ''unhashable type: '' @ squote (asc ''slice''))"

definition IndexError_list :: exn where
  "IndexError_list = OtherError (asc ''list index out of range'')"

definition IndexError_str :: exn where
  "IndexError_str = OtherError (asc ''string index out of range'')"

definition KeyError_0 :: exn where
  "KeyError_0 = OtherError (asc ''0'')"

text \<open>Sequencing of a computation that may raise.\<close>

fun and_then :: "exn + 'a \<Rightarrow> ('a \<Rightarrow> exn + 'b) \<Rightarrow> exn + 'b" where
  "and_then (Inl e) f = Inl e"
| "and_then (Inr x) f = f x"

text \<open>\<open>bool(v)\<close>, the test of \<open>if v:\<close>.\<close>

fun truthy :: "json \<Rightarrow> bool" where
  "truthy JNull = False"
| "truthy (JBool b) = b"
| "truthy (JInt i) = (i \<noteq> 0)"
| "truthy (JFloat r) = (r \<noteq> 0)"
| "truthy (JStr s) = (s \<noteq> [])"
| "truthy (JList xs) = (xs \<noteq> [])"
| "truthy (JDict kvs) = (kvs \<noteq> [])"

text \<open>\<open>v.get(k, d)\<close>: only a dict has the method.\<close>

fun py_get :: "json \<Rightarrow> pystr \<Rightarrow> json \<Rightarrow> exn + json" where
  "py_get (JDict kvs) k d = Inr (case map_of kvs k of Some v \<Rightarrow> v | None \<Rightarrow> d)"
| "py_get v k d = Inl (AttributeError_get v)"

text \<open>\<open>v[0]\<close>: the keys of a decoded JSON object are strings, so \<open>0\<close> is never a key.\<close>

fun py_index0 :: "json \<Rightarrow> exn + json" where
  "py_index0 (JList []) = Inl IndexError_list"
| "py_index0 (JList (x # xs)) = Inr x"
| "py_index0 (JStr []) = Inl IndexError_str"
| "py_index0 (JStr (c # cs)) = Inr (JStr [c])"
| "py_index0 (JDict kvs) = Inl KeyError_0"
| "py_index0 v = Inl (TypeError_subscript v)"

text \<open>\<open>for m in v\<close>: the elements of a list, the characters of a string, the keys of a dict.\<close>

fun py_iter :: "json \<Rightarrow> exn + json list" where
  "py_iter (JList xs) = Inr xs"
| "py_iter (JStr s) = Inr (map (\<lambda>c. JStr [c]) s)"
| "py_iter (JDict kvs) = Inr (map (\<lambda>kv. JStr (fst kv)) kvs)"
| "py_iter v = Inl (TypeError_iter v)"

text \<open>\<open>len(v)\<close>.\<close>

fun py_len :: "json \<Rightarrow> exn + nat" where
  "py_len (JList xs) = Inr (length xs)"
| "py_len (JStr s) = Inr (length s)"
| "py_len (JDict kvs) = Inr (length kvs)"
| "py_len v = Inl (TypeError_len v)"

text \<open>\<open>v[:n]\<close>\<close>

fun py_slice :: "nat \<Rightarrow> json \<Rightarrow> exn + json" where
  "py_slice n (JStr s) = Inr (JStr (take n s))"
| "py_slice n (JList xs) = Inr (JList (take n xs))"
| "py_slice n (JDict kvs) = Inl TypeError_slice"
| "py_slice n v = Inl (TypeError_subscript v)"

text \<open>\<open>str(n)\<close> for an integer, as the f-string formats the status code.\<close>

fun str_nat :: "nat \<Rightarrow> pystr" where
  "str_nat n = (if n < 10 then [48 + n] else str_nat (n div 10) @ [48 + n mod 10])"

declare str_nat.simps [simp del]

definition str_int :: "int \<Rightarrow> pystr" where
  "str_int i = (if i < 0 then 45 # str_nat (nat (- i)) else str_nat (nat i))"

section \<open>Double precision\<close>

text \<open>
  A Python \<open>float\<close> is a double; it is modelled by the rational number it denotes. The
  probe subtracts clock readings, sums the gaps with \<open>sum\<close> and divides by their number.
  How the interpreter rounds these three operations is a parameter of the model.
\<close>

record arith =
  fsub :: "rat \<Rightarrow> rat \<Rightarrow> rat"
  fsum :: "rat list \<Rightarrow> rat"
  fdiv :: "rat \<Rightarrow> nat \<Rightarrow> rat"

text \<open>The double that the literal \<open>0.01\<close> denotes; it is a little above one hundredth.\<close>

definition float_0_01 :: rat where
  "float_0_01 = 5764607523034235 / 576460752303423488"

text \<open>
  Rounding to the nearest double, ties to even: 53 significant bits, exponents down to
  that of the subnormal numbers. Overflow is not modelled.
\<close>

definition round_half_even :: "rat \<Rightarrow> int" where
  "round_half_even x =
     (let f = \<lfloor>x\<rfloor>; d = x - of_int f in
      if d < 1 / 2 then f else if 1 / 2 < d then f + 1 else if even f then f else f + 1)"

definition pow2 :: "int \<Rightarrow> rat" where
  "pow2 e = (if 0 \<le> e then 2 ^ nat e else 1 / 2 ^ nat (- e))"

text \<open>The integer part of the binary logarithm of a positive number.\<close>

definition ilog2 :: "rat \<Rightarrow> int" where
  "ilog2 x = (let (p, q) = quotient_of x; k = bitlen p - bitlen q in
              if pow2 k \<le> x then k else k - 1)"

definition round_double :: "rat \<Rightarrow> rat" where
  "round_double x =
     (if x = 0 then 0
      else let e = max (ilog2 \<bar>x\<bar> - 52) (- 1074) in
           of_int (round_half_even (x / pow2 e)) * pow2 e)"

text \<open>
  The arithmetic of CPython 3.11 on doubles: each operation rounds its exact result, and
  \<open>sum\<close> adds from the left, starting from \<open>0\<close>.
\<close>

definition double_arith :: arith where
  "double_arith =
     \<lparr>fsub = (\<lambda>a b. round_double (a - b)),
      fsum = foldl (\<lambda>s x. round_double (s + x)) 0,
      fdiv = (\<lambda>x n. round_double (x / of_nat n))\<rparr>"

section \<open>HTTP exchange\<close>

text \<open>
  What \<open>_make_request\<close> hands back: it raises, or it returns a response with a status
  code, a body text (\<open>response.text\<close>) and the outcome of \<open>response.json()\<close> (the decoded
  body, or the exception of a body that is not JSON). A streaming response also carries
  what \<open>iter_lines()\<close> yields: each line with the clock reading taken when it arrived (the
  \<open>time.time()\<close> of that iteration), and the exception, if any, that the iterator raises
  once these lines are used up. A line is given by its decoded text.
\<close>

record response =
  status_code :: int
  body_text :: pystr
  json_body :: "exn + json"

record stream_response = response +
  iter_lines :: "(rat \<times> pystr) list"
  iter_end :: "exn option"

definition http_error :: "'a response_scheme \<Rightarrow> pystr" where
  "http_error resp =
     asc ''HTTP '' @ str_int (status_code resp) @ asc '': '' @ take 200 (body_text resp)"

definition timeout_msg :: pystr where
  "timeout_msg = [35831, 27714, 36229, 26102]"

definition connection_prefix :: pystr where
  "connection_prefix = [36830, 25509, 38169, 35823, 58, 32]"

section \<open>Console output\<close>

text \<open>
  The probes print through \<open>rich\<close>, which reads the printed text as markup and raises
  (\<open>MarkupError\<close>, \<open>NotRenderableError\<close>) on a text or value it cannot render. A print of a
  fixed text, or of a fixed text with numbers inserted, has balanced tags and does not
  raise; such prints are left out. Each print that inserts text or values from outside
  is one constructor below, with what it inserts:
  \<^item> \<open>UsingModel\<close>: \<open>f"[dim]... {model}[/dim]"\<close> before the \<open>try\<close> of a probe (lines 133, 198,
    408, 510);
  \<^item> \<open>Failed\<close>: \<open>f"[red]... {result['error']}[/red]"\<close> after a status other than 200 (lines
    92, 157, 369, 473, 530);
  \<^item> \<open>ErrorText\<close>, \<open>ConnectionText\<close>: \<open>f"[red]... {e}[/red]"\<close> in the \<open>except\<close> clauses (lines
    102, 164, 376, 480, 537, and 99);
  \<^item> \<open>ModelsTable\<close>: the table of model identifiers (lines 79 to 86);
  \<^item> \<open>ReplyPanel\<close>: \<open>Panel(content, ...)\<close> (line 154);
  \<^item> \<open>FragmentText\<close>: \<open>f"[cyan]{content}[/cyan]"\<close> (lines 253, 272);
  \<^item> \<open>RawLine\<close>: \<open>f"[dim]  {i+1}: {raw_line[:150]}...[/dim]"\<close> with the index \<open>i\<close> (line 339);
  \<^item> \<open>FollowUpReply\<close>: \<open>f"[green]... ({round(non_stream_time, 2)}s): {content[:50]}[/green]"\<close>
    (line 358);
  \<^item> \<open>FollowUpError\<close>: \<open>f"[red]... {e}[/red]"\<close> (line 365);
  \<^item> \<open>ToolName\<close>, \<open>ToolArguments\<close>, \<open>ToolReply\<close>: \<open>f"[dim]... {value}[/dim]"\<close> (lines 458, 459,
    467).

  What \<open>rich\<close> does on such a print is a parameter of the model: \<open>None\<close> if the print
  goes through, the text of the exception if it raises. These exceptions are not among
  those of \<open>requests\<close>, so \<open>emit\<close> raises them as \<open>OtherError\<close>.
\<close>

datatype probe = ModelsProbe | ChatProbe | StreamProbe | ToolsProbe | EmbeddingsProbe

datatype print =
    UsingModel pystr
  | Failed probe pystr
  | ErrorText pystr
  | ConnectionText pystr
  | ModelsTable "json list"
  | ReplyPanel json
  | FragmentText pystr
  | RawLine nat pystr
  | FollowUpReply rat json
  | FollowUpError pystr
  | ToolName json
  | ToolArguments json
  | ToolReply json

type_synonym console = "print \<Rightarrow> pystr option"

definition emit :: "console \<Rightarrow> print \<Rightarrow> exn option" where
  "emit console p = map_option OtherError (console p)"

section \<open>Probe results\<close>

text \<open>
  Each probe fills a dict that starts with \<open>success = False\<close> and \<open>error = None\<close>, and
  returns it unless an exception leaves the probe (\<open>Inl\<close>). The entries \<open>model_used\<close>,
  \<open>response_time\<close> and \<open>first_chunk_time\<close> record the model name and clock readings only
  and are left out. A probe is modelled from the point where its model name is settled:
  \<open>model\<close> is the name in use, and the choice of a default for a missing name is not
  modelled.
\<close>

record probe_result =
  success :: bool
  error :: "pystr option"

record models_result = probe_result +
  models :: "json list"

record chat_result = probe_result +
  response :: json

text \<open>
  The \<open>except\<close> clauses shared by the chat, streaming, tool-calling and embeddings probes:
  \<open>Timeout\<close> first, then any \<open>Exception\<close>. The \<open>try\<close> body is given as the dict as far as
  it was filled and the exception that ended the body, if one did. The clause for
  \<open>Exception\<close> prints the exception's text; if that print raises, the exception leaves
  the probe.
\<close>

fun handle :: "console \<Rightarrow> 'a probe_result_scheme \<times> exn option \<Rightarrow> exn + 'a probe_result_scheme" where
  "handle console (result, None) = Inr result"
| "handle console (result, Some (Timeout m)) = Inr (result\<lparr>error := Some timeout_msg\<rparr>)"
| "handle console (result, Some e) =
     (case emit console (ErrorText (str_exn e)) of
        None \<Rightarrow> Inr (result\<lparr>error := Some (str_exn e)\<rparr>)
      | Some e' \<Rightarrow> Inl e')"

text \<open>The models probe has a clause for \<open>ConnectionError\<close> between the two.\<close>

fun handle_models ::
    "console \<Rightarrow> 'a probe_result_scheme \<times> exn option \<Rightarrow> exn + 'a probe_result_scheme" where
  "handle_models console (result, None) = Inr result"
| "handle_models console (result, Some (Timeout m)) = Inr (result\<lparr>error := Some timeout_msg\<rparr>)"
| "handle_models console (result, Some (ConnectionError m)) =
     (case emit console (ConnectionText m) of
        None \<Rightarrow> Inr (result\<lparr>error := Some (connection_prefix @ m)\<rparr>)
      | Some e' \<Rightarrow> Inl e')"
| "handle_models console (result, Some (OtherError m)) =
     (case emit console (ErrorText m) of
        None \<Rightarrow> Inr (result\<lparr>error := Some m\<rparr>)
      | Some e' \<Rightarrow> Inl e')"

text \<open>The print of the model name in use, which stands before the \<open>try\<close>.\<close>

definition using_model :: "console \<Rightarrow> pystr \<Rightarrow> (exn + 'a) \<Rightarrow> exn + 'a" where
  "using_model console model rest =
     (case emit console (UsingModel model) of None \<Rightarrow> rest | Some e \<Rightarrow> Inl e)"

subsection \<open>Models probe\<close>

text \<open>\<open>[m.get("id", "unknown") for m in models]\<close>\<close>

fun model_ids :: "json list \<Rightarrow> exn + json list" where
  "model_ids [] = Inr []"
| "model_ids (m # ms) =
     and_then (py_get m (asc ''id'') (JStr (asc ''unknown'')))
       (\<lambda>i. and_then (model_ids ms) (\<lambda>is. Inr (i # is)))"

definition models_try :: "console \<Rightarrow> exn + response \<Rightarrow> models_result \<times> exn option" where
  "models_try console req =
     (let result = \<lparr>success = False, error = None, models = []\<rparr> in
      case req of
        Inl e \<Rightarrow> (result, Some e)
      | Inr resp \<Rightarrow>
          if status_code resp = 200 then
            (case json_body resp of
               Inl e \<Rightarrow> (result, Some e)
             | Inr data \<Rightarrow>
                 (case py_get data (asc ''data'') (JList []) of
                    Inl e \<Rightarrow> (result, Some e)
                  | Inr ms \<Rightarrow>
                      (let result = result\<lparr>success := True\<rparr> in
                       case and_then (py_iter ms) model_ids of
                         Inl e \<Rightarrow> (result, Some e)
                       | Inr ids \<Rightarrow>
                           (let result = result\<lparr>models := ids\<rparr> in
                            if ids \<noteq> [] then (result, emit console (ModelsTable ids))
                            else (result, None)))))
          else
            (let result = result\<lparr>error := Some (http_error resp)\<rparr> in
             (result, emit console (Failed ModelsProbe (http_error resp)))))"

definition test_models_list :: "console \<Rightarrow> exn + response \<Rightarrow> exn + models_result" where
  "test_models_list console req = handle_models console (models_try console req)"

subsection \<open>Chat probe\<close>

text \<open>\<open>data.get("choices", [{}])[0].get(field, {})\<close>\<close>

definition first_choice :: "json \<Rightarrow> pystr \<Rightarrow> exn + json" where
  "first_choice data field =
     and_then (py_get data (asc ''choices'') (JList [JDict []]))
       (\<lambda>choices. and_then (py_index0 choices) (\<lambda>c. py_get c field (JDict [])))"

definition message_content :: "json \<Rightarrow> exn + json" where
  "message_content data =
     and_then (first_choice data (asc ''message'')) (\<lambda>m. py_get m (asc ''content'') (JStr []))"

definition chat_try :: "console \<Rightarrow> exn + response \<Rightarrow> chat_result \<times> exn option" where
  "chat_try console req =
     (let result = \<lparr>success = False, error = None, response = JNull\<rparr> in
      case req of
        Inl e \<Rightarrow> (result, Some e)
      | Inr resp \<Rightarrow>
          if status_code resp = 200 then
            (case and_then (json_body resp) message_content of
               Inl e \<Rightarrow> (result, Some e)
             | Inr content \<Rightarrow>
                 (let result = result\<lparr>success := True, response := content\<rparr> in
                  (result, emit console (ReplyPanel content))))
          else
            (let result = result\<lparr>error := Some (http_error resp)\<rparr> in
             (result, emit console (Failed ChatProbe (http_error resp)))))"

definition test_chat_completion ::
    "console \<Rightarrow> pystr \<Rightarrow> exn + response \<Rightarrow> exn + chat_result" where
  "test_chat_completion console model req =
     using_model console model (handle console (chat_try console req))"

subsection \<open>Tool-calling probe\<close>

record tools_result = probe_result +
  tool_called :: bool
  tool_name :: json
  tool_arguments :: json

definition no_response_msg :: pystr where
  "no_response_msg = [26410, 25910, 21040, 26377, 25928, 21709, 24212]"

text \<open>\<open>tool_calls[0].get("function", {}).get(field)\<close>, where a missing field gives \<open>None\<close>.\<close>

definition call_field :: "json \<Rightarrow> pystr \<Rightarrow> exn + json" where
  "call_field tool_calls field =
     and_then (py_index0 tool_calls)
       (\<lambda>c. and_then (py_get c (asc ''function'') (JDict [])) (\<lambda>f. py_get f field JNull))"

definition tools_try :: "console \<Rightarrow> exn + response \<Rightarrow> tools_result \<times> exn option" where
  "tools_try console req =
     (let result = \<lparr>success = False, error = None, tool_called = False,
                     tool_name = JNull, tool_arguments = JNull\<rparr> in
      case req of
        Inl e \<Rightarrow> (result, Some e)
      | Inr resp \<Rightarrow>
          if status_code resp = 200 then
            (case and_then (json_body resp) (\<lambda>data. first_choice data (asc ''message'')) of
               Inl e \<Rightarrow> (result, Some e)
             | Inr message \<Rightarrow>
                 (case py_get message (asc ''tool_calls'') (JList []) of
                    Inl e \<Rightarrow> (result, Some e)
                  | Inr tool_calls \<Rightarrow>
                      if truthy tool_calls then
                        (let result = result\<lparr>success := True, tool_called := True\<rparr> in
                         case call_field tool_calls (asc ''name'') of
                           Inl e \<Rightarrow> (result, Some e)
                         | Inr n \<Rightarrow>
                             (let result = result\<lparr>tool_name := n\<rparr> in
                              case call_field tool_calls (asc ''arguments'') of
                                Inl e \<Rightarrow> (result, Some e)
                              | Inr a \<Rightarrow>
                                  (let result = result\<lparr>tool_arguments := a\<rparr> in
                                   case emit console (ToolName n) of
                                     Some e \<Rightarrow> (result, Some e)
                                   | None \<Rightarrow> (result, emit console (ToolArguments a)))))
                      else
                        (case py_get message (asc ''content'') (JStr []) of
                           Inl e \<Rightarrow> (result, Some e)
                         | Inr content \<Rightarrow>
                             if truthy content then
                               (let result = result\<lparr>success := True, tool_called := False\<rparr> in
                                case py_slice 100 content of
                                  Inl e \<Rightarrow> (result, Some e)
                                | Inr shown \<Rightarrow> (result, emit console (ToolReply shown)))
                             else (result\<lparr>error := Some no_response_msg\<rparr>, None))))
          else
            (let result = result\<lparr>error := Some (http_error resp)\<rparr> in
             (result, emit console (Failed ToolsProbe (http_error resp)))))"

definition test_function_calling ::
    "console \<Rightarrow> pystr \<Rightarrow> exn + response \<Rightarrow> exn + tools_result" where
  "test_function_calling console model req =
     using_model console model (handle console (tools_try console req))"

subsection \<open>Embeddings probe\<close>

record embeddings_result = probe_result +
  dimensions :: nat

definition embeddings_try :: "console \<Rightarrow> exn + response \<Rightarrow> embeddings_result \<times> exn option" where
  "embeddings_try console req =
     (let result = \<lparr>success = False, error = None, dimensions = 0\<rparr> in
      case req of
        Inl e \<Rightarrow> (result, Some e)
      | Inr resp \<Rightarrow>
          if status_code resp = 200 then
            (case and_then (json_body resp)
                    (\<lambda>data. and_then (py_get data (asc ''data'') (JList [JDict []]))
                       (\<lambda>d. and_then (py_index0 d) (\<lambda>d0. py_get d0 (asc ''embedding'') (JList [])))) of
               Inl e \<Rightarrow> (result, Some e)
             | Inr embeddings \<Rightarrow>
                 (let result = result\<lparr>success := True\<rparr> in
                  case py_len embeddings of
                    Inl e \<Rightarrow> (result, Some e)
                  | Inr n \<Rightarrow> (result\<lparr>dimensions := n\<rparr>, None)))
          else
            (let result = result\<lparr>error := Some (http_error resp)\<rparr> in
             (result, emit console (Failed EmbeddingsProbe (http_error resp)))))"

definition test_embeddings ::
    "console \<Rightarrow> pystr \<Rightarrow> exn + response \<Rightarrow> exn + embeddings_result" where
  "test_embeddings console model req =
     using_model console model (handle console (embeddings_try console req))"

section \<open>Streaming probe\<close>

datatype quality = Excellent | Good | Poor | NonStandard | NotSupported | Unknown

record stream_result = probe_result +
  chunks_received :: nat
  full_response :: pystr
  is_real_stream :: bool
  stream_quality :: quality

text \<open>The local variables of the read loop.\<close>

record read_state =
  chunk_times :: "rat list"
  full_content :: pystr
  chunk_count :: nat
  raw_lines :: "pystr list"
  has_done :: bool

text \<open>How one pass through the loop body ends: with the next line, with \<open>break\<close>, or with
  an exception that leaves the \<open>try\<close>.\<close>

datatype flow = Next read_state | Break read_state | Raise read_state exn

text \<open>The code points for which \<open>str.isspace\<close> holds, which \<open>strip()\<close> removes.\<close>

definition is_space :: "nat \<Rightarrow> bool" where
  "is_space c \<longleftrightarrow>
     (9 \<le> c \<and> c \<le> 13) \<or> (28 \<le> c \<and> c \<le> 32) \<or> c = 133 \<or> c = 160 \<or> c = 5760 \<or>
     (8192 \<le> c \<and> c \<le> 8202) \<or> c = 8232 \<or> c = 8233 \<or> c = 8239 \<or> c = 8287 \<or> c = 12288"

definition strip :: "pystr \<Rightarrow> pystr" where
  "strip s = rev (dropWhile is_space (rev (dropWhile is_space s)))"

definition startswith :: "pystr \<Rightarrow> pystr \<Rightarrow> bool" where
  "startswith s p \<longleftrightarrow> take (length p) s = p"

text \<open>\<open>data.get("choices", [{}])[0].get("delta", {}).get("content", "")\<close>\<close>

definition delta_content :: "json \<Rightarrow> exn + json" where
  "delta_content data =
     and_then (first_choice data (asc ''delta'')) (\<lambda>delta. py_get delta (asc ''content'') (JStr []))"

text \<open>A bare JSON line falls back on the top-level \<open>content\<close>, then \<open>completion\<close>.\<close>

definition bare_content :: "json \<Rightarrow> exn + json" where
  "bare_content data =
     and_then (delta_content data)
       (\<lambda>content. and_then (if \<not> truthy content then py_get data (asc ''content'') (JStr [])
                              else Inr content)
          (\<lambda>content. if \<not> truthy content then py_get data (asc ''completion'') (JStr [])
                      else Inr content))"

text \<open>
  The body of \<open>if content:\<close>. The arrival time is appended first; \<open>full_content += content\<close>
  then raises \<open>TypeError\<close> unless the content is a string; the fragment is counted and
  then printed.
\<close>

definition add_fragment :: "console \<Rightarrow> rat \<Rightarrow> json \<Rightarrow> read_state \<Rightarrow> flow" where
  "add_fragment console dt content st =
     (if truthy content then
        (let st = st\<lparr>chunk_times := chunk_times st @ [dt]\<rparr> in
         case content of
           JStr s \<Rightarrow>
             (let st = st\<lparr>full_content := full_content st @ s,
                          chunk_count := chunk_count st + 1\<rparr> in
              case emit console (FragmentText s) of None \<Rightarrow> Next st | Some e \<Rightarrow> Raise st e)
         | _ \<Rightarrow> Raise st (TypeError_concat content))
      else Next st)"

text \<open>
  One pass through the loop body. \<open>loads\<close> is \<open>json.loads\<close>, a parameter of the model:
  \<open>None\<close> stands for \<open>JSONDecodeError\<close>, the one exception the body swallows.
\<close>

definition process_line ::
    "console \<Rightarrow> arith \<Rightarrow> (pystr \<Rightarrow> json option) \<Rightarrow> rat \<Rightarrow> rat \<times> pystr \<Rightarrow> read_state
       \<Rightarrow> flow" where
  "process_line console fl loads start_time timed_line st =
     (let current_time = fst timed_line; line_str = snd timed_line in
      if line_str \<noteq> [] then
        (let st = st\<lparr>raw_lines := raw_lines st @ [line_str]\<rparr> in
         if startswith line_str (asc ''data: '') then
           (let data_str = drop 6 line_str in
            if strip data_str = asc ''[DONE]'' then Break (st\<lparr>has_done := True\<rparr>)
            else
              (case loads data_str of
                 None \<Rightarrow> Next st
               | Some data \<Rightarrow>
                   (case delta_content data of
                      Inl e \<Rightarrow> Raise st e
                    | Inr content \<Rightarrow>
                        add_fragment console (fsub fl current_time start_time) content st)))
         else if startswith line_str (asc ''{'') then
           (case loads line_str of
              None \<Rightarrow> Next st
            | Some data \<Rightarrow>
                (case bare_content data of
                   Inl e \<Rightarrow> Raise st e
                 | Inr content \<Rightarrow>
                     add_fragment console (fsub fl current_time start_time) content st))
         else if startswith line_str (asc ''event:'') then Next st
         else Next st)
      else Next st)"

text \<open>\<open>for line in response.iter_lines()\<close>: the state when the loop is left, and the
  exception if it was left by one.\<close>

fun read_lines ::
    "console \<Rightarrow> arith \<Rightarrow> (pystr \<Rightarrow> json option) \<Rightarrow> rat \<Rightarrow> (rat \<times> pystr) list \<Rightarrow> exn option
       \<Rightarrow> read_state \<Rightarrow> read_state \<times> exn option" where
  "read_lines console fl loads start_time [] fin st = (st, fin)"
| "read_lines console fl loads start_time (l # ls) fin st =
     (case process_line console fl loads start_time l st of
        Next st' \<Rightarrow> read_lines console fl loads start_time ls fin st'
      | Break st' \<Rightarrow> (st', None)
      | Raise st' e \<Rightarrow> (st', Some e))"

definition read_start :: read_state where
  "read_start = \<lparr>chunk_times = [], full_content = [], chunk_count = 0, raw_lines = [],
                  has_done = False\<rparr>"

definition stream_read ::
    "console \<Rightarrow> arith \<Rightarrow> (pystr \<Rightarrow> json option) \<Rightarrow> rat \<Rightarrow> stream_response
       \<Rightarrow> read_state \<times> exn option" where
  "stream_read console fl loads start_time resp =
     read_lines console fl loads start_time (iter_lines resp) (iter_end resp) read_start"

text \<open>\<open>[chunk_times[i+1] - chunk_times[i] for i in range(len(chunk_times)-1)]\<close> and
  \<open>sum(intervals) / len(intervals)\<close>\<close>

definition intervals :: "arith \<Rightarrow> rat list \<Rightarrow> rat list" where
  "intervals fl ts = map (\<lambda>i. fsub fl (ts ! (i + 1)) (ts ! i)) [0..<length ts - 1]"

definition avg_interval :: "arith \<Rightarrow> rat list \<Rightarrow> rat" where
  "avg_interval fl ts = fdiv fl (fsum fl (intervals fl ts)) (length (intervals fl ts))"

definition empty_stream_msg :: pystr where
  "empty_stream_msg = asc ''API '' @ [36820, 22238, 31354, 27969, 24335, 21709, 24212]
                        @ asc '' ('' @ [21482, 26377] @ asc '' [DONE])''"

definition no_stream_data_msg :: pystr where
  "no_stream_data_msg = [26410, 25910, 21040, 26377, 25928, 30340, 27969, 24335, 25968, 25454]"

text \<open>\<open>for i, raw_line in enumerate(raw_lines[:5])\<close>, from index \<open>i\<close> on: the exception of
  the first print that raises.\<close>

fun print_raw_lines :: "console \<Rightarrow> nat \<Rightarrow> pystr list \<Rightarrow> exn option" where
  "print_raw_lines console i [] = None"
| "print_raw_lines console i (l # ls) =
     (case emit console (RawLine i l) of
        None \<Rightarrow> print_raw_lines console (i + 1) ls
      | Some e \<Rightarrow> Some e)"

text \<open>
  The non-streaming request that follows a read without fragments: what the request
  comes back with, and the time it took (\<open>non_stream_time\<close>). \<open>follow_up_try\<close> is the
  exception that ends the inner \<open>try\<close>, if one does; the inner \<open>except\<close> clause prints it,
  and if that print raises, the exception reaches the outer \<open>try\<close>.
\<close>

record follow_up =
  reply :: "exn + response"
  non_stream_time :: rat

definition follow_up_try :: "console \<Rightarrow> follow_up \<Rightarrow> exn option" where
  "follow_up_try console f =
     (case reply f of
        Inl e \<Rightarrow> Some e
      | Inr resp \<Rightarrow>
          if status_code resp = 200 then
            (case and_then (json_body resp) message_content of
               Inl e \<Rightarrow> Some e
             | Inr content \<Rightarrow>
                 if truthy content then
                   (case py_slice 50 content of
                      Inl e \<Rightarrow> Some e
                    | Inr shown \<Rightarrow> emit console (FollowUpReply (non_stream_time f) shown))
                 else None)
          else None)"

definition follow_up_request :: "console \<Rightarrow> follow_up \<Rightarrow> exn option" where
  "follow_up_request console f =
     (case follow_up_try console f of
        None \<Rightarrow> None
      | Some e \<Rightarrow> emit console (FollowUpError (str_exn e)))"

text \<open>
  The analysis after the loop: the dict as far as it was filled, and the exception that
  a print of the last branch raised, if one did. The comparison is one of doubles, with
  the double that \<open>0.01\<close> denotes.
\<close>

definition classify ::
    "console \<Rightarrow> arith \<Rightarrow> follow_up \<Rightarrow> read_state \<Rightarrow> stream_result
       \<Rightarrow> stream_result \<times> exn option" where
  "classify console fl follow st result =
     (if chunk_count st > 0 then
        (let result = result\<lparr>chunks_received := chunk_count st,
                               full_response := full_content st\<rparr> in
         if length (chunk_times st) > 1 then
           (if avg_interval fl (chunk_times st) > float_0_01 \<and> chunk_count st \<ge> 3 then
              (result\<lparr>is_real_stream := True, stream_quality := Excellent, success := True\<rparr>,
               None)
            else if chunk_count st \<ge> 2 then
              (result\<lparr>is_real_stream := True, stream_quality := Good, success := True\<rparr>, None)
            else (result\<lparr>stream_quality := Poor, success := True\<rparr>, None))
         else (result\<lparr>stream_quality := Poor, success := True\<rparr>, None))
      else if full_content st \<noteq> [] then
        (result\<lparr>success := True, chunks_received := 1, full_response := full_content st,
                stream_quality := NonStandard\<rparr>, None)
      else
        (let result = result\<lparr>success := False\<rparr> in
         if has_done st \<and> length (raw_lines st) \<le> 2 then
           (let result = result\<lparr>error := Some empty_stream_msg,
                                  stream_quality := NotSupported\<rparr> in
            (result, follow_up_request console follow))
         else
           (let result = result\<lparr>error := Some no_stream_data_msg,
                                  stream_quality := Unknown\<rparr> in
            case print_raw_lines console 0 (take 5 (raw_lines st)) of
              Some e \<Rightarrow> (result, Some e)
            | None \<Rightarrow> (result, follow_up_request console follow))))"

definition stream_start :: stream_result where
  "stream_start = \<lparr>success = False, error = None, chunks_received = 0, full_response = [],
     is_real_stream = False, stream_quality = Unknown\<rparr>"

definition stream_try ::
    "console \<Rightarrow> arith \<Rightarrow> (pystr \<Rightarrow> json option) \<Rightarrow> rat \<Rightarrow> exn + stream_response \<Rightarrow> follow_up
       \<Rightarrow> stream_result \<times> exn option" where
  "stream_try console fl loads start_time req follow =
     (let result = stream_start in
      case req of
        Inl e \<Rightarrow> (result, Some e)
      | Inr resp \<Rightarrow>
          if status_code resp = 200 then
            (case stream_read console fl loads start_time resp of
               (st, Some e) \<Rightarrow> (result, Some e)
             | (st, None) \<Rightarrow> classify console fl follow st result)
          else
            (let result = result\<lparr>error := Some (http_error resp)\<rparr> in
             (result, emit console (Failed StreamProbe (http_error resp)))))"

definition test_stream_mode ::
    "console \<Rightarrow> arith \<Rightarrow> (pystr \<Rightarrow> json option) \<Rightarrow> pystr \<Rightarrow> rat \<Rightarrow> exn + stream_response
       \<Rightarrow> follow_up \<Rightarrow> exn + stream_result" where
  "test_stream_mode console fl loads model start_time req follow =
     using_model console model (handle console (stream_try console fl loads start_time req follow))"

section \<open>Result store of the orchestrator\<close>

text \<open>
  \<open>self.results\<close> is a dict from probe names to result dicts, with the tested model's name
  under \<open>tested_model\<close>; \<open>EmptyDict\<close> is the \<open>{}\<close> that \<open>get\<close> falls back on.
\<close>

datatype entry =
    ModelsEntry models_result
  | ChatEntry chat_result
  | StreamEntry stream_result
  | ToolsEntry tools_result
  | EmbeddingsEntry embeddings_result
  | ModelName pystr
  | EmptyDict

record history_record =
  h_model :: pystr
  h_chat :: entry
  h_stream :: entry
  h_tools :: entry
  h_embeddings :: entry




section \<open>Notions used to state the properties\<close>

text \<open>
  What holds of the loop variables whenever the loop body is entered: every recorded
  arrival time belongs to a counted fragment, text has been collected only if a fragment
  was counted, and the end marker has not been seen.
\<close>

definition looping :: "read_state \<Rightarrow> bool" where
  "looping st \<longleftrightarrow>
     length (chunk_times st) = chunk_count st \<and> (chunk_count st = 0 \<longrightarrow> full_content st = [])
     \<and> \<not> has_done st"

text \<open>
  From the spec's words: the inter-arrival gaps between consecutive fragment timestamps
  (\<open>N - 1\<close> gaps for \<open>N\<close> fragments), and their mean, as exact numbers.
\<close>

fun spec_gaps :: "rat list \<Rightarrow> rat list" where
  "spec_gaps (a # b # ts) = (b - a) # spec_gaps (b # ts)"
| "spec_gaps ts = []"


text \<open>Reading a decoded JSON value along a path: a key of an object, the first element
  of an array.\<close>

fun lookup :: "json \<Rightarrow> pystr \<Rightarrow> json option" where
  "lookup (JDict kvs) k = map_of kvs k"
| "lookup v k = None"

fun first_item :: "json \<Rightarrow> json option" where
  "first_item (JList (x # xs)) = Some x"
| "first_item v = None"

text \<open>From the spec's words: the field \<open>choices[0].message.content\<close> of the response body,
  if it is present.\<close>

definition spec_content_field :: "json \<Rightarrow> json option" where
  "spec_content_field data =
     Option.bind (lookup data (asc ''choices''))
       (\<lambda>choices. Option.bind (first_item choices)
          (\<lambda>c. Option.bind (lookup c (asc ''message'')) (\<lambda>m. lookup m (asc ''content''))))"

text \<open>From the claim's words: the error text that a raised exception is reported with.\<close>

fun spec_error_text :: "exn \<Rightarrow> pystr" where
  "spec_error_text (Timeout m) = timeout_msg"
| "spec_error_text e = str_exn e"

text \<open>The models probe reports a connection error with a prefix of its own.\<close>

fun models_error_text :: "exn \<Rightarrow> pystr" where
  "models_error_text (ConnectionError m) = connection_prefix @ m"
| "models_error_text e = spec_error_text e"

text \<open>Exceptions other than the two classes of \<open>requests\<close> that the probes tell apart.\<close>

fun is_other :: "exn \<Rightarrow> bool" where
  "is_other (OtherError m) = True"
| "is_other e = False"

text \<open>The request raised, or it returned a body that \<open>response.json()\<close> cannot decode.\<close>

definition transport_failure :: "exn + 'a response_scheme \<Rightarrow> bool" where
  "transport_failure req = (case req of Inl e \<Rightarrow> True | Inr resp \<Rightarrow> isl (json_body resp))"

text \<open>
  The print of the \<open>except\<close> clause that catches an exception (the clause for a timeout
  prints a fixed text), in the models probe and in the other probes, and whether the
  console lets it through.
\<close>

fun error_print :: "exn \<Rightarrow> print option" where
  "error_print (Timeout m) = None"
| "error_print e = Some (ErrorText (str_exn e))"

fun models_error_print :: "exn \<Rightarrow> print option" where
  "models_error_print (Timeout m) = None"
| "models_error_print (ConnectionError m) = Some (ConnectionText m)"
| "models_error_print (OtherError m) = Some (ErrorText m)"

definition goes_through :: "console \<Rightarrow> print option \<Rightarrow> bool" where
  "goes_through console p = (case p of None \<Rightarrow> True | Some q \<Rightarrow> console q = None)"

section \<open>Example exchanges\<close>

text \<open>
  \<open>json.loads\<close> on the three payloads that the examples send; no example asks it for
  anything else.
\<close>

definition loads_table :: "pystr \<Rightarrow> json option" where
  \<open>loads_table s =
     (if s = asc ''{"choices":[{"delta":{"content":"1"}}]}'' then
        Some (JDict [(asc ''choices'',
                JList [JDict [(asc ''delta'', JDict [(asc ''content'', JStr (asc ''1''))])]])])
      else if s = asc ''{"choices":[]}'' then Some (JDict [(asc ''choices'', JList [])])
      else if s = asc ''{"content":"hi"}'' then Some (JDict [(asc ''content'', JStr (asc ''hi''))])
      else None)\<close>

text \<open>
  The text of the \<open>MarkupError\<close> that \<open>rich\<close> raises on a closing tag that no open tag
  matches, and \<open>rich\<close> on the prints of the examples: the raw line \<open>see [/docs]\<close> and the
  reply \<open>[/INST] Sunny\<close> hold such a tag, and so do the texts of the two errors, which
  quote it; every other print of the examples goes through. The positions are those of
  the tag in the printed texts.
\<close>

definition markup_error :: "pystr \<Rightarrow> nat \<Rightarrow> pystr" where
  "markup_error tag position =
     asc ''closing tag '' @ squote tag @ asc '' at position '' @ str_nat position
       @ asc '' doesn'' @ [39] @ asc ''t match any open tag''"

definition rich_console :: console where
  "rich_console p =
     (if p = RawLine 0 (asc ''see [/docs]'') then Some (markup_error (asc ''[/docs]'') 14)
      else if p = ErrorText (markup_error (asc ''[/docs]'') 14)
        then Some (markup_error (asc ''[/docs]'') 24)
      else if p = ToolReply (JStr (asc ''[/INST] Sunny''))
        then Some (markup_error (asc ''[/INST]'') 9)
      else if p = ErrorText (markup_error (asc ''[/INST]'') 9)
        then Some (markup_error (asc ''[/INST]'') 24)
      else None)"

definition gpt4 :: pystr where
  "gpt4 = asc ''gpt-4''"

definition fragment_line :: pystr where
  \<open>fragment_line = asc ''data: {"choices":[{"delta":{"content":"1"}}]}''\<close>

definition no_choice_line :: pystr where
  \<open>no_choice_line = asc ''data: {"choices":[]}''\<close>

definition bare_line :: pystr where
  \<open>bare_line = asc ''{"content":"hi"}''\<close>

definition done_line :: pystr where
  "done_line = asc ''data: [DONE]''"

definition ok_stream :: "(rat \<times> pystr) list \<Rightarrow> stream_response" where
  "ok_stream ls = \<lparr>status_code = 200, body_text = [], json_body = Inl (OtherError []),
                    iter_lines = ls, iter_end = None\<rparr>"

text \<open>A follow-up request for the runs that never make one.\<close>

definition no_follow_up :: follow_up where
  "no_follow_up = \<lparr>reply = Inl (OtherError []), non_stream_time = 0\<rparr>"

text \<open>The doubles that \<open>0.05\<close>, \<open>0.1\<close>, \<open>0.15\<close>, \<open>0.2\<close> and \<open>0.25\<close> denote.\<close>

definition t1 :: rat where "t1 = 3602879701896397 / 72057594037927936"
definition t2 :: rat where "t2 = 3602879701896397 / 36028797018963968"
definition t3 :: rat where "t3 = 5404319552844595 / 36028797018963968"
definition t4 :: rat where "t4 = 3602879701896397 / 18014398509481984"
definition t5 :: rat where "t5 = 1 / 4"





definition one_bare :: stream_response where
  "one_bare = ok_stream [(t1, bare_line)]"

definition docs_line :: stream_response where
  "docs_line = ok_stream [(t1, asc ''see [/docs]'')]"

definition fragment_then_no_choice :: stream_response where
  "fragment_then_no_choice = ok_stream [(t1, fragment_line), (t2, no_choice_line),
     (t3, done_line)]"

definition one_fragment :: stream_response where
  "one_fragment = ok_stream [(t1, fragment_line), (t1, done_line)]"

definition one_fragment_read :: read_state where
  "one_fragment_read = \<lparr>chunk_times = [t1], full_content = asc ''1'', chunk_count = 1,
     raw_lines = [fragment_line, done_line], has_done = True\<rparr>"

definition two_then_no_choice :: stream_response where
  "two_then_no_choice = ok_stream [(t1, fragment_line), (t2, fragment_line),
     (t3, no_choice_line), (t4, done_line)]"

definition two_fragments :: stream_response where
  "two_fragments = ok_stream [(t1, fragment_line), (t2, fragment_line), (t2, done_line)]"

definition two_fragments_read :: read_state where
  "two_fragments_read = \<lparr>chunk_times = [t1, t2], full_content = asc ''11'',
     chunk_count = 2, raw_lines = [fragment_line, fragment_line, done_line],
     has_done = True\<rparr>"

definition ok_response :: "json \<Rightarrow> response" where
  "ok_response data = \<lparr>status_code = 200, body_text = [], json_body = Inr data\<rparr>"

definition inst_reply :: json where
  "inst_reply = JDict [(asc ''choices'', JList [JDict [(asc ''message'',
     JDict [(asc ''content'', JStr (asc ''[/INST] Sunny''))])]])]"

definition server_error :: response where
  "server_error = \<lparr>status_code = 500, body_text = asc ''internal error'',
     json_body = Inl (OtherError [])\<rparr>"

definition server_error_stream :: stream_response where
  "server_error_stream = \<lparr>status_code = 500, body_text = asc ''internal error'',
     json_body = Inl (OtherError []), iter_lines = [], iter_end = None\<rparr>"

definition refused :: exn where
  "refused = ConnectionError (asc ''connection refused'')"

definition bare_ids :: json where
  "bare_ids = JDict [(asc ''data'', JList [JStr (asc ''gpt-4'')])]"

definition null_function_call :: json where
  "null_function_call = JDict [(asc ''choices'', JList [JDict [(asc ''message'',
     JDict [(asc ''tool_calls'', JList [JDict [(asc ''function'', JNull)]])])]])]"

definition null_embedding :: json where
  "null_embedding = JDict [(asc ''data'', JList [JDict [(asc ''embedding'', JNull)]])]"


section \<open>Properties of the read loop\<close>

lemma emit_None: "console p = None \<Longrightarrow> emit console p = None"
  by (simp add: emit_def)

lemma emit_Some: "emit console p = Some e \<Longrightarrow> is_other e"
  by (auto simp: emit_def)

lemma add_fragment_Next:
  assumes "looping st" and "add_fragment console dt content st = Next st'"
  shows "looping st' \<and> raw_lines st' = raw_lines st"
  using assms
  by (auto simp: add_fragment_def looping_def Let_def split: if_splits json.splits option.splits)

lemma add_fragment_Break: "add_fragment console dt content st \<noteq> Break st'"
  by (auto simp: add_fragment_def Let_def split: json.splits option.splits)

lemma add_fragment_Raise:
  assumes "looping st" and "add_fragment console dt content st = Raise st' e"
  shows "(chunk_count st' = 0 \<longrightarrow> full_content st' = []) \<and> \<not> has_done st'"
  using assms
  by (auto simp: add_fragment_def looping_def Let_def split: if_splits json.splits option.splits)

lemma looping_raw: "looping (st\<lparr>raw_lines := r\<rparr>) = looping st"
  by (simp add: looping_def)

lemma process_line_Next:
  assumes "looping st" and "process_line console fl loads start l st = Next st'"
  shows "looping st'"
  using assms
  by (auto simp: process_line_def Let_def looping_raw split: if_splits option.splits sum.splits
           dest!: add_fragment_Next[rotated])

lemma process_line_Break:
  assumes "looping st" and "process_line console fl loads start l st = Break st'"
  shows "length (chunk_times st') = chunk_count st'
         \<and> (chunk_count st' = 0 \<longrightarrow> full_content st' = []) \<and> has_done st'"
  using assms
  by (auto simp: process_line_def Let_def looping_def add_fragment_Break
           split: if_splits option.splits sum.splits)

lemma process_line_Raise:
  assumes "looping st" and "process_line console fl loads start l st = Raise st' e"
  shows "(chunk_count st' = 0 \<longrightarrow> full_content st' = []) \<and> \<not> has_done st'"
  using assms
  by (auto simp: process_line_def Let_def looping_raw
           split: if_splits option.splits sum.splits dest!: add_fragment_Raise[rotated])
     (auto simp: looping_def)

lemma read_lines_inv:
  assumes "looping st" and "read_lines console fl loads start ls fin st = (st', raised)"
  shows "(chunk_count st' = 0 \<longrightarrow> full_content st' = [])
         \<and> (raised = None \<longrightarrow> length (chunk_times st') = chunk_count st')
         \<and> (raised \<noteq> None \<longrightarrow> \<not> has_done st')"
  using assms
proof (induction ls arbitrary: st)
  case Nil
  then show ?case by (auto simp: looping_def)
next
  case (Cons l ls)
  show ?case
  proof (cases "process_line console fl loads start l st")
    case (Next s1)
    with Cons.prems have "looping s1"
      and "read_lines console fl loads start ls fin s1 = (st', raised)"
      by (auto dest: process_line_Next)
    then show ?thesis by (rule Cons.IH)
  next
    case (Break s1)
    with Cons.prems show ?thesis by (auto dest: process_line_Break)
  next
    case (Raise s1 e)
    with Cons.prems show ?thesis by (auto dest: process_line_Raise)
  qed
qed

lemma looping_start: "looping read_start"
  by (simp add: looping_def read_start_def)

lemma stream_read_inv:
  assumes "stream_read console fl loads start resp = (st, raised)"
  shows "(chunk_count st = 0 \<longrightarrow> full_content st = [])
         \<and> (raised = None \<longrightarrow> length (chunk_times st) = chunk_count st)
         \<and> (raised \<noteq> None \<longrightarrow> \<not> has_done st)"
  using assms read_lines_inv[OF looping_start] by (simp add: stream_read_def)

lemma stream_completed:
  assumes "console (UsingModel model) = None" and "status_code resp = 200"
      and "stream_read console fl loads start resp = (st, None)"
  shows "test_stream_mode console fl loads model start (Inr resp) follow
           = handle console (classify console fl follow st stream_start)"
  using assms by (simp add: test_stream_mode_def stream_try_def using_model_def emit_None)

lemma classify_fragments:
  assumes "0 < chunk_count st" and "length (chunk_times st) = chunk_count st"
  shows "classify console fl follow st stream_start =
     (stream_start\<lparr>chunks_received := chunk_count st, full_response := full_content st,
        is_real_stream := 2 \<le> chunk_count st,
        stream_quality :=
          (if chunk_count st = 1 then Poor
           else if float_0_01 < avg_interval fl (chunk_times st) \<and> 3 \<le> chunk_count st
             then Excellent
           else Good),
        success := True\<rparr>, None)"
  using assms by (auto simp: classify_def stream_start_def Let_def)

lemma classify_not_non_standard:
  assumes "chunk_count st = 0 \<longrightarrow> full_content st = []"
  shows "stream_quality (fst (classify console fl follow st stream_start)) \<noteq> NonStandard"
  using assms by (auto simp: classify_def stream_start_def Let_def split: option.splits)

lemma handle_quality:
  "handle console (r, x) = Inr r' \<Longrightarrow> stream_quality r' = stream_quality r"
  by (cases "(console, (r, x))" rule: handle.cases) (auto split: option.splits)

lemma never_non_standard:
  assumes "test_stream_mode console fl loads model start req follow = Inr r"
  shows "stream_quality r \<noteq> NonStandard"
proof -
  obtain r0 x where t: "stream_try console fl loads start req follow = (r0, x)"
    by (cases "stream_try console fl loads start req follow")
  with assms have h: "handle console (r0, x) = Inr r"
    by (auto simp: test_stream_mode_def using_model_def split: option.splits)
  have "stream_quality r0 \<noteq> NonStandard"
  proof (cases req)
    case (Inl e)
    with t show ?thesis by (auto simp: stream_try_def stream_start_def)
  next
    case (Inr resp)
    show ?thesis
    proof (cases "status_code resp = 200")
      case False
      with Inr t show ?thesis by (auto simp: stream_try_def stream_start_def)
    next
      case True
      obtain st raised where s: "stream_read console fl loads start resp = (st, raised)"
        by (cases "stream_read console fl loads start resp")
      show ?thesis
      proof (cases raised)
        case None
        with Inr True s t have "r0 = fst (classify console fl follow st stream_start)"
          by (auto simp: stream_try_def)
        with stream_read_inv[OF s] show ?thesis
          by (simp add: classify_not_non_standard)
      next
        case (Some e)
        with Inr True s t show ?thesis by (auto simp: stream_try_def stream_start_def)
      qed
    qed
  qed
  with handle_quality[OF h] show ?thesis by simp
qed

lemma intervals_gaps:
  "intervals \<lparr>fsub = (-), fsum = sum_list, fdiv = (\<lambda>x n. x / of_nat n)\<rparr> ts = spec_gaps ts"
proof (induction ts rule: spec_gaps.induct)
  case (1 a b ts)
  have "intervals \<lparr>fsub = (-), fsum = sum_list, fdiv = (\<lambda>x n. x / of_nat n)\<rparr> (a # b # ts)
          = (b - a) # intervals \<lparr>fsub = (-), fsum = sum_list, fdiv = (\<lambda>x n. x / of_nat n)\<rparr>
                        (b # ts)"
    by (simp add: intervals_def map_upt_Suc del: upt_Suc)
  with 1 show ?case by simp
qed (simp_all add: intervals_def)

lemmas eval_simps = stream_read_def read_start_def process_line_def startswith_def strip_def
  is_space_def asc_def loads_table_def fragment_line_def done_line_def ok_stream_def
  delta_content_def bare_content_def first_choice_def add_fragment_def no_choice_line_def
  bare_line_def IndexError_list_def Let_def emit_def rich_console_def using_model_def
  markup_error_def squote_def str_nat.simps

lemma round_double_examples:
  "round_double t1 = t1" "round_double t2 = t2" "round_double t3 = t3"
  "round_double t4 = t4" "round_double t5 = t5"
  "round_double 0 = 0" "round_double float_0_01 = float_0_01"
  "round_double (2 * float_0_01) = 2 * float_0_01"
  by (code_simp+)





lemma ten_ms_gaps: "spec_gaps [0, float_0_01, 2 * float_0_01] = [float_0_01, float_0_01]"
  by simp

lemma handle_Inr:
  "handle console (r0, x) = Inr r \<Longrightarrow> r = r0 \<or> (\<exists>m. r = r0\<lparr>error := Some m\<rparr>)"
  by (cases "(console, (r0, x))" rule: handle.cases) (auto split: option.splits)

lemma stream_aborted:
  assumes "console (UsingModel model) = None" and "status_code resp = 200"
      and "stream_read console fl loads start resp = (st, Some e)"
  shows "test_stream_mode console fl loads model start (Inr resp) follow
           = handle console (stream_start, Some e)"
  using assms by (simp add: test_stream_mode_def stream_try_def using_model_def emit_None)

lemma classify_no_fragment:
  assumes "chunk_count st = 0" and "full_content st = []"
  shows "\<not> success (fst (classify console fl follow st stream_start))
         \<and> \<not> is_real_stream (fst (classify console fl follow st stream_start))
         \<and> stream_quality (fst (classify console fl follow st stream_start))
             = (if has_done st \<and> length (raw_lines st) \<le> 2 then NotSupported else Unknown)"
  using assms by (auto simp: classify_def stream_start_def Let_def split: option.splits)

lemma no_fragment_result:
  assumes "console (UsingModel model) = None" and "status_code resp = 200"
      and "stream_read console fl loads start resp = (st, raised)"
      and "chunk_count st = 0"
      and "test_stream_mode console fl loads model start (Inr resp) follow = Inr r"
  shows "\<not> success r \<and> \<not> is_real_stream r
         \<and> stream_quality r
             = (if has_done st \<and> length (raw_lines st) \<le> 2 then NotSupported else Unknown)"
proof (cases raised)
  case None
  with assms(3) have s: "stream_read console fl loads start resp = (st, None)" by simp
  from stream_read_inv[OF s] assms(4) have "full_content st = []" by simp
  note c = classify_no_fragment[OF assms(4) this, of console fl follow]
  from assms(5) have "handle console (classify console fl follow st stream_start) = Inr r"
    by (simp add: stream_completed[OF assms(1,2) s])
  then have "r = fst (classify console fl follow st stream_start)
             \<or> (\<exists>m. r = (fst (classify console fl follow st stream_start))\<lparr>error := Some m\<rparr>)"
    using handle_Inr[of console "fst (classify console fl follow st stream_start)"
                        "snd (classify console fl follow st stream_start)" r]
    by simp
  with c show ?thesis by auto
next
  case (Some e)
  with assms(3) have s: "stream_read console fl loads start resp = (st, Some e)" by simp
  from stream_read_inv[OF s] have "\<not> has_done st" by simp
  moreover from assms(5) have "handle console (stream_start, Some e) = Inr r"
    by (simp add: stream_aborted[OF assms(1,2) s])
  then have "r = stream_start \<or> (\<exists>m. r = stream_start\<lparr>error := Some m\<rparr>)"
    by (rule handle_Inr)
  ultimately show ?thesis by (auto simp: stream_start_def)
qed

lemma one_fragment_is_poor_aux:
  assumes "console (UsingModel model) = None"
      and "status_code resp = 200"
      and "stream_read console fl loads start resp = (st, None)"
      and "chunk_count st = 1"
  shows "test_stream_mode console fl loads model start (Inr resp) follow
           = Inr \<lparr>success = True, error = None, chunks_received = 1,
                  full_response = full_content st, is_real_stream = False,
                  stream_quality = Poor\<rparr>"
proof -
  have len: "length (chunk_times st) = chunk_count st"
    using stream_read_inv[OF assms(3)] by simp
  from assms(4) have pos: "0 < chunk_count st" by simp
  show ?thesis
    using assms(4)
    by (simp add: stream_completed[OF assms(1,2,3)] classify_fragments[OF pos len])
       (simp add: stream_start_def)
qed

section \<open>Properties of the exception handling\<close>

lemma handle_goes_through:
  "goes_through console (error_print e)
     \<Longrightarrow> handle console (r, Some e) = Inr (r\<lparr>error := Some (spec_error_text e)\<rparr>)"
  by (cases e) (simp_all add: goes_through_def emit_None)

lemma handle_models_goes_through:
  "goes_through console (models_error_print e)
     \<Longrightarrow> handle_models console (r, Some e) = Inr (r\<lparr>error := Some (models_error_text e)\<rparr>)"
  by (cases e) (simp_all add: goes_through_def emit_None)

lemma py_get_other: "py_get x k d = Inl e \<Longrightarrow> is_other e"
  by (cases x) (auto simp: AttributeError_get_def)

lemma py_index0_other: "py_index0 x = Inl e \<Longrightarrow> is_other e"
  by (cases x rule: py_index0.cases)
     (auto simp: IndexError_list_def IndexError_str_def KeyError_0_def TypeError_subscript_def)

lemma py_iter_other: "py_iter x = Inl e \<Longrightarrow> is_other e"
  by (cases x) (auto simp: TypeError_iter_def)

lemma py_len_other: "py_len x = Inl e \<Longrightarrow> is_other e"
  by (cases x) (auto simp: TypeError_len_def)

lemma py_slice_other: "py_slice n x = Inl e \<Longrightarrow> is_other e"
  by (cases x) (auto simp: TypeError_slice_def TypeError_subscript_def)

lemma and_then_Inl: "and_then x f = Inl e \<longleftrightarrow> x = Inl e \<or> (\<exists>y. x = Inr y \<and> f y = Inl e)"
  by (cases x) auto

lemma and_then_Inr: "and_then x f = Inr v \<longleftrightarrow> (\<exists>y. x = Inr y \<and> f y = Inr v)"
  by (cases x) auto

lemma model_ids_other: "model_ids ms = Inl e \<Longrightarrow> is_other e"
  by (induction ms) (auto simp: and_then_Inl dest: py_get_other)

lemma call_field_other: "call_field tc k = Inl e \<Longrightarrow> is_other e"
  by (auto simp: call_field_def and_then_Inl dest: py_get_other py_index0_other)

lemma chat_raised: "chat_try console req = (r, Some e) \<Longrightarrow> success r \<Longrightarrow> is_other e"
  by (auto simp: chat_try_def Let_def split: sum.splits if_splits dest: emit_Some)

lemma models_raised: "models_try console req = (r, Some e) \<Longrightarrow> success r \<Longrightarrow> is_other e"
  by (auto simp: models_try_def Let_def and_then_Inl split: sum.splits if_splits
           dest: py_iter_other model_ids_other emit_Some)

lemma tools_raised: "tools_try console req = (r, Some e) \<Longrightarrow> success r \<Longrightarrow> is_other e"
  by (auto simp: tools_try_def Let_def split: sum.splits if_splits option.splits
           dest: call_field_other py_slice_other emit_Some)

lemma embeddings_raised:
  "embeddings_try console req = (r, Some e) \<Longrightarrow> success r \<Longrightarrow> is_other e"
  by (auto simp: embeddings_try_def Let_def split: sum.splits if_splits
           dest: py_len_other emit_Some)

lemma classify_raised: "classify console fl follow st stream_start = (r, Some e) \<Longrightarrow> \<not> success r"
  by (auto simp: classify_def stream_start_def Let_def split: if_splits option.splits)

lemma classify_success:
  "classify console fl follow st stream_start = (r, x) \<Longrightarrow> success r \<Longrightarrow> error r = None"
  by (auto simp: classify_def stream_start_def Let_def split: if_splits option.splits)

lemma stream_raised:
  "stream_try console fl loads start req follow = (r, Some e) \<Longrightarrow> \<not> success r"
  by (auto simp: stream_try_def Let_def stream_start_def[symmetric]
           split: sum.splits if_splits option.splits prod.splits dest: classify_raised)
     (auto simp: stream_start_def)

lemma stream_try_success:
  "stream_try console fl loads start req follow = (r, x) \<Longrightarrow> success r \<Longrightarrow> error r = None"
  by (auto simp: stream_try_def Let_def stream_start_def[symmetric]
           split: sum.splits if_splits option.splits prod.splits dest: classify_success)
     (auto simp: stream_start_def)

lemma stream_success_no_error:
  assumes "test_stream_mode console fl loads model start req follow = Inr r"
      and "success r"
  shows "error r = None"
proof -
  obtain r0 x where t: "stream_try console fl loads start req follow = (r0, x)"
    by (cases "stream_try console fl loads start req follow")
  with assms(1) have h: "handle console (r0, x) = Inr r"
    by (auto simp: test_stream_mode_def using_model_def split: option.splits)
  show ?thesis
  proof (cases x)
    case None
    with h have "r = r0" by simp
    with stream_try_success[OF t] assms(2) show ?thesis by simp
  next
    case (Some e)
    with stream_raised t have "\<not> success r0" by blast
    with handle_Inr[OF h] assms(2) show ?thesis by auto
  qed
qed

lemma models_transport:
  "snd (models_try console req) = Some e \<Longrightarrow> transport_failure req
     \<Longrightarrow> \<not> success (fst (models_try console req))"
  by (auto simp: models_try_def transport_failure_def Let_def and_then_Inr isl_def
           split: sum.splits if_splits)

lemma chat_transport:
  "snd (chat_try console req) = Some e \<Longrightarrow> transport_failure req
     \<Longrightarrow> \<not> success (fst (chat_try console req))"
  by (auto simp: chat_try_def transport_failure_def Let_def and_then_Inr isl_def
           split: sum.splits if_splits)

lemma tools_transport:
  "snd (tools_try console req) = Some e \<Longrightarrow> transport_failure req
     \<Longrightarrow> \<not> success (fst (tools_try console req))"
  by (auto simp: tools_try_def transport_failure_def Let_def and_then_Inr isl_def
           split: sum.splits if_splits)

lemma embeddings_transport:
  "snd (embeddings_try console req) = Some e \<Longrightarrow> transport_failure req
     \<Longrightarrow> \<not> success (fst (embeddings_try console req))"
  by (auto simp: embeddings_try_def transport_failure_def Let_def and_then_Inr isl_def
           split: sum.splits if_splits)

lemma non_200:
  assumes "status_code resp \<noteq> 200"
  shows "console (Failed ModelsProbe (http_error resp)) = None
           \<Longrightarrow> test_models_list console (Inr resp)
               = Inr \<lparr>success = False, error = Some (http_error resp), models = []\<rparr>"
    and "console (UsingModel model) = None
           \<Longrightarrow> console (Failed ChatProbe (http_error resp)) = None
           \<Longrightarrow> test_chat_completion console model (Inr resp)
               = Inr \<lparr>success = False, error = Some (http_error resp), response = JNull\<rparr>"
    and "console (UsingModel model) = None
           \<Longrightarrow> console (Failed ToolsProbe (http_error resp)) = None
           \<Longrightarrow> test_function_calling console model (Inr resp)
               = Inr \<lparr>success = False, error = Some (http_error resp), tool_called = False,
                      tool_name = JNull, tool_arguments = JNull\<rparr>"
    and "console (UsingModel model) = None
           \<Longrightarrow> console (Failed EmbeddingsProbe (http_error resp)) = None
           \<Longrightarrow> test_embeddings console model (Inr resp)
               = Inr \<lparr>success = False, error = Some (http_error resp), dimensions = 0\<rparr>"
  using assms
  by (simp_all add: test_models_list_def models_try_def test_chat_completion_def chat_try_def
        test_function_calling_def tools_try_def test_embeddings_def embeddings_try_def
        using_model_def emit_None)

lemma stream_non_200:
  assumes "status_code resp \<noteq> 200" and "console (UsingModel model) = None"
      and "console (Failed StreamProbe (http_error resp)) = None"
  shows "test_stream_mode console fl loads model start (Inr resp) follow
           = Inr \<lparr>success = False, error = Some (http_error resp), chunks_received = 0,
                  full_response = [], is_real_stream = False, stream_quality = Unknown\<rparr>"
  using assms
  by (simp add: test_stream_mode_def stream_try_def stream_start_def using_model_def emit_None)

lemma models_failure:
  assumes "snd (models_try console req) = Some e"
      and "goes_through console (models_error_print e)"
  shows "test_models_list console req
           = Inr ((fst (models_try console req))\<lparr>error := Some (models_error_text e)\<rparr>)
         \<and> (\<not> is_other e \<or> transport_failure req
              \<longrightarrow> \<not> success (fst (models_try console req)))"
proof -
  obtain r where r: "models_try console req = (r, Some e)"
    using assms(1) by (cases "models_try console req") simp
  with models_raised[OF r] models_transport[OF assms(1)] show ?thesis
    by (auto simp: test_models_list_def handle_models_goes_through[OF assms(2)])
qed

lemma chat_failure:
  assumes "console (UsingModel model) = None"
      and "snd (chat_try console req) = Some e"
      and "goes_through console (error_print e)"
  shows "test_chat_completion console model req
           = Inr ((fst (chat_try console req))\<lparr>error := Some (spec_error_text e)\<rparr>)
         \<and> (\<not> is_other e \<or> transport_failure req \<longrightarrow> \<not> success (fst (chat_try console req)))"
proof -
  obtain r where r: "chat_try console req = (r, Some e)"
    using assms(2) by (cases "chat_try console req") simp
  with chat_raised[OF r] chat_transport[OF assms(2)] show ?thesis
    by (auto simp: test_chat_completion_def using_model_def emit_None[of console "UsingModel model", OF assms(1)]
          handle_goes_through[OF assms(3)])
qed

lemma tools_failure:
  assumes "console (UsingModel model) = None"
      and "snd (tools_try console req) = Some e"
      and "goes_through console (error_print e)"
  shows "test_function_calling console model req
           = Inr ((fst (tools_try console req))\<lparr>error := Some (spec_error_text e)\<rparr>)
         \<and> (\<not> is_other e \<or> transport_failure req \<longrightarrow> \<not> success (fst (tools_try console req)))"
proof -
  obtain r where r: "tools_try console req = (r, Some e)"
    using assms(2) by (cases "tools_try console req") simp
  with tools_raised[OF r] tools_transport[OF assms(2)] show ?thesis
    by (auto simp: test_function_calling_def using_model_def emit_None[of console "UsingModel model", OF assms(1)]
          handle_goes_through[OF assms(3)])
qed

lemma embeddings_failure:
  assumes "console (UsingModel model) = None"
      and "snd (embeddings_try console req) = Some e"
      and "goes_through console (error_print e)"
  shows "test_embeddings console model req
           = Inr ((fst (embeddings_try console req))\<lparr>error := Some (spec_error_text e)\<rparr>)
         \<and> (\<not> is_other e \<or> transport_failure req
              \<longrightarrow> \<not> success (fst (embeddings_try console req)))"
proof -
  obtain r where r: "embeddings_try console req = (r, Some e)"
    using assms(2) by (cases "embeddings_try console req") simp
  with embeddings_raised[OF r] embeddings_transport[OF assms(2)] show ?thesis
    by (auto simp: test_embeddings_def using_model_def emit_None[of console "UsingModel model", OF assms(1)]
          handle_goes_through[OF assms(3)])
qed

lemma stream_failure:
  assumes "console (UsingModel model) = None"
      and "snd (stream_try console fl loads start req follow) = Some e"
      and "goes_through console (error_print e)"
  shows "test_stream_mode console fl loads model start req follow
           = Inr ((fst (stream_try console fl loads start req follow))
                    \<lparr>error := Some (spec_error_text e)\<rparr>)
         \<and> \<not> success (fst (stream_try console fl loads start req follow))"
proof -
  obtain r where r: "stream_try console fl loads start req follow = (r, Some e)"
    using assms(2) by (cases "stream_try console fl loads start req follow") simp
  with stream_raised[OF r] show ?thesis
    by (auto simp: test_stream_mode_def using_model_def emit_None[of console "UsingModel model", OF assms(1)]
          handle_goes_through[OF assms(3)])
qed

lemmas body_simps = ok_response_def first_choice_def message_content_def asc_def emit_def
  rich_console_def using_model_def markup_error_def squote_def str_nat.simps

lemma tools_success_with_error:
  "test_function_calling rich_console gpt4 (Inr (ok_response null_function_call))
     = Inr \<lparr>success = True,
            error = Some (squote (asc ''NoneType'') @ asc '' object has no attribute ''
                            @ squote (asc ''get'')),
            tool_called = True, tool_name = JNull, tool_arguments = JNull\<rparr>"
  by (simp add: null_function_call_def test_function_calling_def tools_try_def
        call_field_def AttributeError_get_def body_simps)

lemma embeddings_success_with_error:
  "test_embeddings rich_console gpt4 (Inr (ok_response null_embedding))
     = Inr \<lparr>success = True,
            error = Some (asc ''object of type '' @ squote (asc ''NoneType'')
                            @ asc '' has no len()''),
            dimensions = 0\<rparr>"
  by (simp add: null_embedding_def test_embeddings_def embeddings_try_def
        TypeError_len_def body_simps)

lemma chat_outcome:
  assumes "console (UsingModel model) = None" and "status_code resp = 200"
      and "json_body resp = Inr data" and "message_content data = Inr content"
      and "console (ReplyPanel content) = None"
  shows "test_chat_completion console model (Inr resp)
           = Inr \<lparr>success = True, error = None, response = content\<rparr>"
  using assms by (simp add: test_chat_completion_def chat_try_def using_model_def emit_None)

lemma tools_outcomes:
  assumes "console (UsingModel model) = None" and "status_code resp = 200"
      and "json_body resp = Inr data"
      and "first_choice data (asc ''message'') = Inr message"
      and "py_get message (asc ''tool_calls'') (JList []) = Inr tool_calls"
  shows "truthy tool_calls \<Longrightarrow> call_field tool_calls (asc ''name'') = Inr n
           \<Longrightarrow> call_field tool_calls (asc ''arguments'') = Inr a
           \<Longrightarrow> console (ToolName n) = None \<Longrightarrow> console (ToolArguments a) = None
           \<Longrightarrow> test_function_calling console model (Inr resp)
               = Inr \<lparr>success = True, error = None, tool_called = True, tool_name = n,
                      tool_arguments = a\<rparr>"
    and "\<not> truthy tool_calls \<Longrightarrow> py_get message (asc ''content'') (JStr []) = Inr content
           \<Longrightarrow> truthy content \<Longrightarrow> py_slice 100 content = Inr shown
           \<Longrightarrow> console (ToolReply shown) = None
           \<Longrightarrow> test_function_calling console model (Inr resp)
               = Inr \<lparr>success = True, error = None, tool_called = False, tool_name = JNull,
                      tool_arguments = JNull\<rparr>"
    and "\<not> truthy tool_calls \<Longrightarrow> py_get message (asc ''content'') (JStr []) = Inr content
           \<Longrightarrow> \<not> truthy content
           \<Longrightarrow> test_function_calling console model (Inr resp)
               = Inr \<lparr>success = False, error = Some no_response_msg, tool_called = False,
                      tool_name = JNull, tool_arguments = JNull\<rparr>"
  using assms
  by (simp_all add: test_function_calling_def tools_try_def using_model_def emit_None)

section \<open>Streaming classifier\<close>




text \<open>
  Claim C2. Fragments recovered only from bare JSON lines should give the quality
  \<open>non-standard\<close> whatever their timing. The loop counts such a fragment like any other, so
  the branch that assigns \<open>non-standard\<close> is never reached (\<open>never_non_standard\<close>): a stream
  of one bare JSON line is rated \<open>poor\<close>.
\<close>

theorem bare_json_line_rated_poor:
  "status_code one_bare = 200
   \<and> chunk_count (fst (stream_read rich_console double_arith loads_table 0 one_bare)) = 1
   \<and> test_stream_mode rich_console double_arith loads_table gpt4 0 (Inr one_bare) no_follow_up
       = Inr \<lparr>success = True, error = None, chunks_received = 1, full_response = asc ''hi'',
              is_real_stream = False, stream_quality = Poor\<rparr>"
  by (simp add: one_bare_def test_stream_mode_def stream_try_def classify_def eval_simps
        double_arith_def round_double_examples stream_start_def)

text \<open>
  Claim C3. A streaming read with status 200 that recovers no content fragment should be
  reported as a failure, with quality \<open>not_supported\<close> or \<open>unknown\<close>. Whenever the probe
  returns from such a read, its result is that (\<open>no_fragment_result\<close>). But the \<open>unknown\<close>
  branch prints the raw lines as markup: the line \<open>see [/docs]\<close> raises \<open>MarkupError\<close>, the
  \<open>except\<close> clause prints the error text, which quotes the tag, and the second
  \<open>MarkupError\<close> leaves the probe, which returns nothing.
\<close>

theorem raw_line_markup_leaves_probe:
  "status_code docs_line = 200
   \<and> chunk_count (fst (stream_read rich_console double_arith loads_table 0 docs_line)) = 0
   \<and> test_stream_mode rich_console double_arith loads_table gpt4 0 (Inr docs_line) no_follow_up
       = Inl (OtherError (markup_error (asc ''[/docs]'') 24))"
  by (simp add: docs_line_def test_stream_mode_def stream_try_def classify_def eval_simps
        stream_start_def markup_error_def squote_def str_nat.simps)

text \<open>
  Claim C4, as stated: every streaming read with status 200 that recovers exactly one
  content fragment is reported with \<open>success\<close> and quality \<open>poor\<close>. It fails for a read that
  an exception cuts short after its first fragment: a following chunk with an empty
  \<open>choices\<close> array raises \<open>IndexError\<close>, and the probe reports a failure.
\<close>

theorem one_fragment_then_error_counterexample:
  "status_code fragment_then_no_choice = 200
   \<and> chunk_count (fst (stream_read rich_console double_arith loads_table 0
        fragment_then_no_choice)) = 1
   \<and> test_stream_mode rich_console double_arith loads_table gpt4 0
        (Inr fragment_then_no_choice) no_follow_up
       = Inr \<lparr>success = False, error = Some (asc ''list index out of range''),
              chunks_received = 0, full_response = [], is_real_stream = False,
              stream_quality = Unknown\<rparr>"
  by (simp add: fragment_then_no_choice_def test_stream_mode_def stream_try_def eval_simps
        double_arith_def round_double_examples stream_start_def)

text \<open>
  Claim C4, amended: when the print of the model name goes through, every streaming read
  with status 200 that runs to its end without an exception and recovers exactly one
  content fragment is reported with \<open>success\<close>, quality \<open>poor\<close> and no error.
\<close>

theorem one_fragment_is_poor:
  assumes "console (UsingModel model) = None"
      and "status_code resp = 200"
      and "stream_read console fl loads start_time resp = (st, None)"
      and "chunk_count st = 1"
  shows "test_stream_mode console fl loads model start_time (Inr resp) follow
           = Inr \<lparr>success = True, error = None, chunks_received = 1,
                  full_response = full_content st, is_real_stream = False,
                  stream_quality = Poor\<rparr>"
  using assms by (rule one_fragment_is_poor_aux)

theorem one_fragment_is_poor_witness:
  "rich_console (UsingModel gpt4) = None
   \<and> status_code one_fragment = 200
   \<and> stream_read rich_console double_arith loads_table 0 one_fragment
       = (one_fragment_read, None)
   \<and> chunk_count one_fragment_read = 1
   \<and> test_stream_mode rich_console double_arith loads_table gpt4 0 (Inr one_fragment)
        no_follow_up
       = Inr \<lparr>success = True, error = None, chunks_received = 1, full_response = asc ''1'',
              is_real_stream = False, stream_quality = Poor\<rparr>"
proof -
  have a: "rich_console (UsingModel gpt4) = None" "status_code one_fragment = 200"
    by (simp_all add: rich_console_def one_fragment_def ok_stream_def)
  have b: "stream_read rich_console double_arith loads_table 0 one_fragment
             = (one_fragment_read, None)"
    by (simp add: one_fragment_def one_fragment_read_def eval_simps double_arith_def
          round_double_examples)
  have c: "chunk_count one_fragment_read = 1"
    by (simp add: one_fragment_read_def)
  show ?thesis
    using one_fragment_is_poor[OF a b c, of no_follow_up] a b c
    by (simp add: one_fragment_read_def)
qed

text \<open>
  Claim C10, as stated: every streaming run with status 200 in which at least two
  content fragments are recovered returns \<open>is_real_stream = true\<close>. It fails for a read that
  an exception cuts short after two fragments.
\<close>

theorem two_fragments_then_error_counterexample:
  "status_code two_then_no_choice = 200
   \<and> chunk_count (fst (stream_read rich_console double_arith loads_table 0
        two_then_no_choice)) = 2
   \<and> test_stream_mode rich_console double_arith loads_table gpt4 0 (Inr two_then_no_choice)
        no_follow_up
       = Inr \<lparr>success = False, error = Some (asc ''list index out of range''),
              chunks_received = 0, full_response = [], is_real_stream = False,
              stream_quality = Unknown\<rparr>"
  by (simp add: two_then_no_choice_def test_stream_mode_def stream_try_def eval_simps
        double_arith_def round_double_examples stream_start_def)

text \<open>
  Claim C10, amended: when the print of the model name goes through, a streaming run
  with status 200 whose read runs to its end without an exception and recovers at least
  two content fragments returns \<open>is_real_stream = true\<close>, with quality \<open>excellent\<close> for three
  or more fragments whose mean gap, as the code computes it in double precision, is
  greater than the double \<open>0.01\<close>, and \<open>good\<close> otherwise; a run with status 200 that
  recovers no or one fragment never returns a result with \<open>is_real_stream = true\<close>.
\<close>

theorem real_stream_from_two_fragments:
  assumes "console (UsingModel model) = None"
      and "status_code resp = 200"
      and "stream_read console fl loads start_time resp = (st, raised)"
  shows "(raised = None \<and> 2 \<le> chunk_count st
            \<longrightarrow> test_stream_mode console fl loads model start_time (Inr resp) follow
                  = Inr \<lparr>success = True, error = None, chunks_received = chunk_count st,
                         full_response = full_content st, is_real_stream = True,
                         stream_quality =
                           (if 3 \<le> chunk_count st
                                 \<and> float_0_01 < avg_interval fl (chunk_times st)
                            then Excellent else Good)\<rparr>)
       \<and> (chunk_count st \<le> 1
            \<and> test_stream_mode console fl loads model start_time (Inr resp) follow = Inr r
            \<longrightarrow> \<not> is_real_stream r)"
proof (intro conjI impI)
  assume a: "raised = None \<and> 2 \<le> chunk_count st"
  with assms(3) have s: "stream_read console fl loads start_time resp = (st, None)" by simp
  have len: "length (chunk_times st) = chunk_count st"
    using stream_read_inv[OF s] by simp
  from a have pos: "0 < chunk_count st" by simp
  show "test_stream_mode console fl loads model start_time (Inr resp) follow
          = Inr \<lparr>success = True, error = None, chunks_received = chunk_count st,
                 full_response = full_content st, is_real_stream = True,
                 stream_quality =
                   (if 3 \<le> chunk_count st \<and> float_0_01 < avg_interval fl (chunk_times st)
                    then Excellent else Good)\<rparr>"
    using a
    by (simp add: stream_completed[OF assms(1,2) s] classify_fragments[OF pos len])
       (auto simp: stream_start_def)
next
  assume a: "chunk_count st \<le> 1
             \<and> test_stream_mode console fl loads model start_time (Inr resp) follow = Inr r"
  show "\<not> is_real_stream r"
  proof (cases "chunk_count st = 0")
    case True
    with no_fragment_result[OF assms(1,2,3)] a show ?thesis by blast
  next
    case False
    with a have one: "chunk_count st = 1" by simp
    show ?thesis
    proof (cases raised)
      case None
      with assms(3) have s: "stream_read console fl loads start_time resp = (st, None)"
        by simp
      from one_fragment_is_poor_aux[OF assms(1,2) s one, of follow] a show ?thesis by auto
    next
      case (Some e)
      with assms(3) have s: "stream_read console fl loads start_time resp = (st, Some e)"
        by simp
      from a have "handle console (stream_start, Some e) = Inr r"
        by (simp add: stream_aborted[OF assms(1,2) s])
      then have "r = stream_start \<or> (\<exists>m. r = stream_start\<lparr>error := Some m\<rparr>)"
        by (rule handle_Inr)
      then show ?thesis by (auto simp: stream_start_def)
    qed
  qed
qed

theorem real_stream_from_two_fragments_witness:
  "rich_console (UsingModel gpt4) = None
   \<and> status_code two_fragments = 200
   \<and> stream_read rich_console double_arith loads_table 0 two_fragments
       = (two_fragments_read, None)
   \<and> 2 \<le> chunk_count two_fragments_read
   \<and> test_stream_mode rich_console double_arith loads_table gpt4 0 (Inr two_fragments)
        no_follow_up
       = Inr \<lparr>success = True, error = None, chunks_received = 2, full_response = asc ''11'',
              is_real_stream = True, stream_quality = Good\<rparr>
   \<and> status_code one_fragment = 200
   \<and> stream_read rich_console double_arith loads_table 0 one_fragment
       = (one_fragment_read, None)
   \<and> chunk_count one_fragment_read \<le> 1
   \<and> (\<exists>r. test_stream_mode rich_console double_arith loads_table gpt4 0 (Inr one_fragment)
             no_follow_up = Inr r \<and> \<not> is_real_stream r)"
proof -
  have a: "rich_console (UsingModel gpt4) = None" "status_code two_fragments = 200"
    by (simp_all add: rich_console_def two_fragments_def ok_stream_def)
  have b: "stream_read rich_console double_arith loads_table 0 two_fragments
             = (two_fragments_read, None)"
    by (simp add: two_fragments_def two_fragments_read_def eval_simps double_arith_def
          round_double_examples)
  have c: "2 \<le> chunk_count two_fragments_read" "\<not> 3 \<le> chunk_count two_fragments_read"
    by (simp_all add: two_fragments_read_def)
  have d: "status_code one_fragment = 200"
    by (simp add: one_fragment_def ok_stream_def)
  have e: "stream_read rich_console double_arith loads_table 0 one_fragment
             = (one_fragment_read, None)"
    by (simp add: one_fragment_def one_fragment_read_def eval_simps double_arith_def
          round_double_examples)
  have f: "chunk_count one_fragment_read \<le> 1"
    by (simp add: one_fragment_read_def)
  have g: "test_stream_mode rich_console double_arith loads_table gpt4 0 (Inr one_fragment)
             no_follow_up
           = Inr \<lparr>success = True, error = None, chunks_received = 1,
                  full_response = asc ''1'', is_real_stream = False, stream_quality = Poor\<rparr>"
    using one_fragment_is_poor_aux[OF a(1) d e, of no_follow_up]
    by (simp add: one_fragment_read_def)
  show ?thesis
    using real_stream_from_two_fragments[OF a b, of no_follow_up]
          real_stream_from_two_fragments[OF a(1) d e, of no_follow_up
            "\<lparr>success = True, error = None, chunks_received = 1, full_response = asc ''1'',
              is_real_stream = False, stream_quality = Poor\<rparr>"]
          a b c d e f g
    by (simp add: two_fragments_read_def)
qed

section \<open>Chat probe\<close>

text \<open>
  Claim C5. The chat probe should report \<open>success\<close> if and only if the status is 200 and
  the field \<open>choices[0].message.content\<close> is present in the body. For the body \<open>{}\<close> the
  field is absent, but every \<open>get\<close> of the extraction falls back on its default, and the
  probe reports \<open>success\<close> with the empty string as the reply.
\<close>

theorem chat_success_without_content:
  "status_code (ok_response (JDict [])) = 200
   \<and> json_body (ok_response (JDict [])) = Inr (JDict [])
   \<and> spec_content_field (JDict []) = None
   \<and> test_chat_completion rich_console gpt4 (Inr (ok_response (JDict [])))
       = Inr \<lparr>success = True, error = None, response = JStr []\<rparr>"
  by (simp add: test_chat_completion_def chat_try_def spec_content_field_def body_simps)

section \<open>Tool-calling probe\<close>

text \<open>
  Claim C6. A tool-calling response with status 200 whose message holds ordinary content
  and no tool calls should give \<open>success\<close> without \<open>tool_called\<close>. The probe prints the
  content as markup: for the reply \<open>[/INST] Sunny\<close> that print raises \<open>MarkupError\<close>, the
  \<open>except\<close> clause prints the error text, which quotes the tag, and the second
  \<open>MarkupError\<close> leaves the probe, which returns nothing.
\<close>

theorem reply_markup_leaves_probe:
  "status_code (ok_response inst_reply) = 200
   \<and> json_body (ok_response inst_reply) = Inr inst_reply
   \<and> spec_content_field inst_reply = Some (JStr (asc ''[/INST] Sunny''))
   \<and> test_function_calling rich_console gpt4 (Inr (ok_response inst_reply))
       = Inl (OtherError (markup_error (asc ''[/INST]'') 24))"
  by (simp add: inst_reply_def test_function_calling_def tools_try_def spec_content_field_def
        body_simps)

section \<open>Failures of a probe\<close>

text \<open>
  Claim C7, as stated: in every probe an exception other than a timeout yields the
  exception's string form as the error. It fails for a connection error in the models
  probe, whose own \<open>except\<close> clause puts a prefix before the exception's text.
\<close>

theorem models_connection_error_counterexample:
  "snd (models_try rich_console (Inl refused)) = Some refused
   \<and> test_models_list rich_console (Inl refused)
       = Inr \<lparr>success = False, error = Some (connection_prefix @ str_exn refused), models = []\<rparr>
   \<and> connection_prefix @ str_exn refused \<noteq> str_exn refused"
  by (simp add: refused_def test_models_list_def models_try_def connection_prefix_def
        body_simps)

text \<open>
  Claim C7, amended: a probe returns a result for a failure whenever its prints of the
  failure go through, and, for the four probes that take a model, the print of the model
  name does. A status other than 200, with the print of the error going through, yields
  \<open>success = false\<close> with the error \<open>HTTP\<close>, the code and the first 200 characters of the
  body. An exception that ends the \<open>try\<close> block, with the print of its \<open>except\<close> clause going
  through, yields as error the timeout message for a timeout and the exception's string
  form otherwise, with the prefix of the models probe for a connection error there; the
  result has \<open>success = false\<close> for every such exception in the streaming probe, and in the
  other four probes for every timeout and connection error and for every exception of
  the request or of decoding the body.
\<close>

theorem failures_become_results:
  "(status_code resp \<noteq> 200 \<and> console (Failed ModelsProbe (http_error resp)) = None
      \<longrightarrow> test_models_list console (Inr resp)
            = Inr \<lparr>success = False, error = Some (http_error resp), models = []\<rparr>)
   \<and> (status_code resp \<noteq> 200 \<and> console (UsingModel model) = None
        \<and> console (Failed ChatProbe (http_error resp)) = None
      \<longrightarrow> test_chat_completion console model (Inr resp)
            = Inr \<lparr>success = False, error = Some (http_error resp), response = JNull\<rparr>)
   \<and> (status_code sresp \<noteq> 200 \<and> console (UsingModel model) = None
        \<and> console (Failed StreamProbe (http_error sresp)) = None
      \<longrightarrow> test_stream_mode console fl loads model start_time (Inr sresp) follow
            = Inr \<lparr>success = False, error = Some (http_error sresp), chunks_received = 0,
                   full_response = [], is_real_stream = False, stream_quality = Unknown\<rparr>)
   \<and> (status_code resp \<noteq> 200 \<and> console (UsingModel model) = None
        \<and> console (Failed ToolsProbe (http_error resp)) = None
      \<longrightarrow> test_function_calling console model (Inr resp)
            = Inr \<lparr>success = False, error = Some (http_error resp), tool_called = False,
                   tool_name = JNull, tool_arguments = JNull\<rparr>)
   \<and> (status_code resp \<noteq> 200 \<and> console (UsingModel model) = None
        \<and> console (Failed EmbeddingsProbe (http_error resp)) = None
      \<longrightarrow> test_embeddings console model (Inr resp)
            = Inr \<lparr>success = False, error = Some (http_error resp), dimensions = 0\<rparr>)
   \<and> (snd (models_try console req) = Some e \<and> goes_through console (models_error_print e)
      \<longrightarrow> (\<exists>r. test_models_list console req = Inr r
               \<and> error r = Some (models_error_text e)
               \<and> (\<not> is_other e \<or> transport_failure req \<longrightarrow> \<not> success r)))
   \<and> (snd (chat_try console req) = Some e \<and> console (UsingModel model) = None
        \<and> goes_through console (error_print e)
      \<longrightarrow> (\<exists>r. test_chat_completion console model req = Inr r
               \<and> error r = Some (spec_error_text e)
               \<and> (\<not> is_other e \<or> transport_failure req \<longrightarrow> \<not> success r)))
   \<and> (snd (stream_try console fl loads start_time sreq follow) = Some e
        \<and> console (UsingModel model) = None \<and> goes_through console (error_print e)
      \<longrightarrow> (\<exists>r. test_stream_mode console fl loads model start_time sreq follow = Inr r
               \<and> error r = Some (spec_error_text e) \<and> \<not> success r))
   \<and> (snd (tools_try console req) = Some e \<and> console (UsingModel model) = None
        \<and> goes_through console (error_print e)
      \<longrightarrow> (\<exists>r. test_function_calling console model req = Inr r
               \<and> error r = Some (spec_error_text e)
               \<and> (\<not> is_other e \<or> transport_failure req \<longrightarrow> \<not> success r)))
   \<and> (snd (embeddings_try console req) = Some e \<and> console (UsingModel model) = None
        \<and> goes_through console (error_print e)
      \<longrightarrow> (\<exists>r. test_embeddings console model req = Inr r
               \<and> error r = Some (spec_error_text e)
               \<and> (\<not> is_other e \<or> transport_failure req \<longrightarrow> \<not> success r)))"
proof (intro conjI impI)
  assume "snd (models_try console req) = Some e \<and> goes_through console (models_error_print e)"
  then show "\<exists>r. test_models_list console req = Inr r
               \<and> error r = Some (models_error_text e)
               \<and> (\<not> is_other e \<or> transport_failure req \<longrightarrow> \<not> success r)"
    using models_failure[of console req e] by auto
next
  assume "snd (chat_try console req) = Some e \<and> console (UsingModel model) = None
            \<and> goes_through console (error_print e)"
  then show "\<exists>r. test_chat_completion console model req = Inr r
               \<and> error r = Some (spec_error_text e)
               \<and> (\<not> is_other e \<or> transport_failure req \<longrightarrow> \<not> success r)"
    using chat_failure[of console model req e] by auto
next
  assume "snd (stream_try console fl loads start_time sreq follow) = Some e
            \<and> console (UsingModel model) = None \<and> goes_through console (error_print e)"
  then show "\<exists>r. test_stream_mode console fl loads model start_time sreq follow = Inr r
               \<and> error r = Some (spec_error_text e) \<and> \<not> success r"
    using stream_failure[of console model fl loads start_time sreq follow e] by auto
next
  assume "snd (tools_try console req) = Some e \<and> console (UsingModel model) = None
            \<and> goes_through console (error_print e)"
  then show "\<exists>r. test_function_calling console model req = Inr r
               \<and> error r = Some (spec_error_text e)
               \<and> (\<not> is_other e \<or> transport_failure req \<longrightarrow> \<not> success r)"
    using tools_failure[of console model req e] by auto
next
  assume "snd (embeddings_try console req) = Some e \<and> console (UsingModel model) = None
            \<and> goes_through console (error_print e)"
  then show "\<exists>r. test_embeddings console model req = Inr r
               \<and> error r = Some (spec_error_text e)
               \<and> (\<not> is_other e \<or> transport_failure req \<longrightarrow> \<not> success r)"
    using embeddings_failure[of console model req e] by auto
qed (simp_all add: non_200 stream_non_200)

theorem failures_become_results_witness:
  "status_code server_error \<noteq> 200 \<and> status_code server_error_stream \<noteq> 200
   \<and> rich_console (UsingModel gpt4) = None
   \<and> rich_console (Failed ModelsProbe (http_error server_error)) = None
   \<and> rich_console (Failed ChatProbe (http_error server_error)) = None
   \<and> rich_console (Failed StreamProbe (http_error server_error_stream)) = None
   \<and> rich_console (Failed ToolsProbe (http_error server_error)) = None
   \<and> rich_console (Failed EmbeddingsProbe (http_error server_error)) = None
   \<and> test_models_list rich_console (Inr server_error)
       = Inr \<lparr>success = False, error = Some (asc ''HTTP 500: internal error''), models = []\<rparr>
   \<and> test_chat_completion rich_console gpt4 (Inr server_error)
       = Inr \<lparr>success = False, error = Some (asc ''HTTP 500: internal error''),
              response = JNull\<rparr>
   \<and> test_stream_mode rich_console double_arith loads_table gpt4 0 (Inr server_error_stream)
        no_follow_up
       = Inr \<lparr>success = False, error = Some (asc ''HTTP 500: internal error''),
              chunks_received = 0, full_response = [], is_real_stream = False,
              stream_quality = Unknown\<rparr>
   \<and> test_function_calling rich_console gpt4 (Inr server_error)
       = Inr \<lparr>success = False, error = Some (asc ''HTTP 500: internal error''),
              tool_called = False, tool_name = JNull, tool_arguments = JNull\<rparr>
   \<and> test_embeddings rich_console gpt4 (Inr server_error)
       = Inr \<lparr>success = False, error = Some (asc ''HTTP 500: internal error''),
              dimensions = 0\<rparr>
   \<and> snd (models_try rich_console (Inl (Timeout []))) = Some (Timeout [])
   \<and> snd (chat_try rich_console (Inl (Timeout []))) = Some (Timeout [])
   \<and> snd (stream_try rich_console double_arith loads_table 0 (Inl (Timeout [])) no_follow_up)
       = Some (Timeout [])
   \<and> snd (tools_try rich_console (Inl (Timeout []))) = Some (Timeout [])
   \<and> snd (embeddings_try rich_console (Inl (Timeout []))) = Some (Timeout [])
   \<and> goes_through rich_console (models_error_print (Timeout []))
   \<and> goes_through rich_console (error_print (Timeout []))
   \<and> \<not> is_other (Timeout [])
   \<and> (\<exists>r. test_models_list rich_console (Inl (Timeout [])) = Inr r
          \<and> error r = Some [35831, 27714, 36229, 26102] \<and> \<not> success r)
   \<and> (\<exists>r. test_chat_completion rich_console gpt4 (Inl (Timeout [])) = Inr r
          \<and> error r = Some [35831, 27714, 36229, 26102] \<and> \<not> success r)
   \<and> (\<exists>r. test_stream_mode rich_console double_arith loads_table gpt4 0 (Inl (Timeout []))
             no_follow_up = Inr r
          \<and> error r = Some [35831, 27714, 36229, 26102] \<and> \<not> success r)
   \<and> (\<exists>r. test_function_calling rich_console gpt4 (Inl (Timeout [])) = Inr r
          \<and> error r = Some [35831, 27714, 36229, 26102] \<and> \<not> success r)
   \<and> (\<exists>r. test_embeddings rich_console gpt4 (Inl (Timeout [])) = Inr r
          \<and> error r = Some [35831, 27714, 36229, 26102] \<and> \<not> success r)
   \<and> snd (models_try rich_console (Inl refused)) = Some refused
   \<and> snd (chat_try rich_console (Inl refused)) = Some refused
   \<and> goes_through rich_console (models_error_print refused)
   \<and> goes_through rich_console (error_print refused)
   \<and> \<not> is_other refused
   \<and> (\<exists>r. test_models_list rich_console (Inl refused) = Inr r
          \<and> error r = Some (connection_prefix @ asc ''connection refused'') \<and> \<not> success r)
   \<and> (\<exists>r. test_chat_completion rich_console gpt4 (Inl refused) = Inr r
          \<and> error r = Some (asc ''connection refused'') \<and> \<not> success r)"
proof -
  have a: "status_code server_error \<noteq> 200" "status_code server_error_stream \<noteq> 200"
    by (simp_all add: server_error_def server_error_stream_def)
  have b: "http_error server_error = asc ''HTTP 500: internal error''"
          "http_error server_error_stream = asc ''HTTP 500: internal error''"
    by (simp_all add: http_error_def server_error_def server_error_stream_def str_int_def
          str_nat.simps asc_def)
  have c: "rich_console (UsingModel gpt4) = None"
          "rich_console (Failed p (asc ''HTTP 500: internal error'')) = None" for p
    by (simp_all add: rich_console_def)
  have d: "snd (models_try rich_console (Inl (Timeout []))) = Some (Timeout [])"
          "snd (chat_try rich_console (Inl (Timeout []))) = Some (Timeout [])"
          "snd (stream_try rich_console double_arith loads_table 0 (Inl (Timeout []))
                  no_follow_up) = Some (Timeout [])"
          "snd (tools_try rich_console (Inl (Timeout []))) = Some (Timeout [])"
          "snd (embeddings_try rich_console (Inl (Timeout []))) = Some (Timeout [])"
    by (simp_all add: chat_try_def stream_try_def tools_try_def embeddings_try_def
          models_try_def)
  have e: "snd (models_try rich_console (Inl refused)) = Some refused"
          "snd (chat_try rich_console (Inl refused)) = Some refused"
          "\<not> is_other refused"
    by (simp_all add: chat_try_def models_try_def refused_def)
  have f: "goes_through rich_console (models_error_print (Timeout []))"
          "goes_through rich_console (error_print (Timeout []))"
          "goes_through rich_console (models_error_print refused)"
          "goes_through rich_console (error_print refused)"
    by (simp_all add: goes_through_def refused_def body_simps)
  have g: "spec_error_text refused = asc ''connection refused''"
          "models_error_text refused = connection_prefix @ asc ''connection refused''"
    by (simp_all add: refused_def)
  show ?thesis
    using failures_become_results[of server_error rich_console gpt4 server_error_stream
            double_arith loads_table 0 no_follow_up "Inl (Timeout [])" "Timeout []"
            "Inl (Timeout [])"]
          failures_become_results[of server_error rich_console gpt4 server_error_stream
            double_arith loads_table 0 no_follow_up "Inl refused" refused "Inl refused"]
          a b c d e f g
    by (simp add: timeout_msg_def)
qed

text \<open>
  Claim C8. No probe result should have \<open>success\<close> together with an error. The streaming
  probe keeps this (\<open>stream_success_no_error\<close>). The models probe sets \<open>success\<close> before it
  collects the identifiers, so a model list whose entries are bare strings ends with
  \<open>success\<close> and the text of the \<open>AttributeError\<close> as error; the tool-calling and embeddings
  probes have the same order of statements (\<open>tools_success_with_error\<close>,
  \<open>embeddings_success_with_error\<close>).
\<close>

theorem models_success_with_error:
  "status_code (ok_response bare_ids) = 200
   \<and> test_models_list rich_console (Inr (ok_response bare_ids))
       = Inr \<lparr>success = True,
              error = Some (squote (asc ''str'') @ asc '' object has no attribute ''
                              @ squote (asc ''get'')),
              models = []\<rparr>"
  by (simp add: bare_ids_def test_models_list_def models_try_def AttributeError_get_def
        body_simps)

section \<open>Result store\<close>



end
